theory Spec2Isabelle
  imports Complex_Main "HOL-Library.Monad_Syntax"
begin

section \<open>Numbers\<close>

text \<open>
  The visualizer (\<^verbatim>\<open>src/exoII/src/components/SolarSystem.tsx\<close>) computes with JavaScript
  numbers. A finite number is modelled as a \<^typ>\<open>real\<close> (rounding and overflow are not
  modelled); a number that is not finite (\<^verbatim>\<open>NaN\<close>, \<^verbatim>\<open>Infinity\<close>, \<^verbatim>\<open>-Infinity\<close>) is the
  value \<open>None\<close> of \<^typ>\<open>real option\<close>. It is \<^emph>\<open>not\<close> an error result: JavaScript
  raises nothing, the non-finite number just flows on. In the functions modelled here
  every operation that meets a non-finite operand yields a non-finite result (the only
  operations that could map an infinity back to a finite number, \<^verbatim>\<open>Math.atan2\<close> and a
  division by an infinite denominator, only ever receive values that went through
  \<^verbatim>\<open>Math.sin\<close> or \<^verbatim>\<open>Math.cos\<close>, which turn an infinity into \<^verbatim>\<open>NaN\<close>), so
  binding in the option monad is the propagation of \<^verbatim>\<open>NaN\<close>.
\<close>

type_synonym jsnum = "real option"

definition js_div :: "real \<Rightarrow> real \<Rightarrow> jsnum" where
  \<comment> \<open>\<^verbatim>\<open>a / b\<close>: \<^verbatim>\<open>0 / 0\<close> is \<^verbatim>\<open>NaN\<close>, any other \<^verbatim>\<open>a / 0\<close> is an infinity.\<close>
  "js_div a b = (if b = 0 then None else Some (a / b))"

definition js_sqrt :: "real \<Rightarrow> jsnum" where
  \<comment> \<open>\<^verbatim>\<open>Math.sqrt\<close>: \<^verbatim>\<open>NaN\<close> on a negative argument.\<close>
  "js_sqrt a = (if a < 0 then None else Some (sqrt a))"

definition atan2 :: "real \<Rightarrow> real \<Rightarrow> real" where
  \<comment> \<open>\<^verbatim>\<open>Math.atan2(y, x)\<close> on finite arguments, with result in \<open>(-\<pi>, \<pi>]\<close>; a zero
      is taken as \<^verbatim>\<open>+0\<close>.\<close>
  "atan2 y x =
     (if 0 < x then arctan (y / x)
      else if x < 0 then (if 0 \<le> y then arctan (y / x) + pi else arctan (y / x) - pi)
      else if 0 < y then pi / 2
      else if y < 0 then - (pi / 2)
      else 0)"

section \<open>The orbital position calculator\<close>

record Vector3 =
  vx :: real
  vy :: real
  vz :: real

text \<open>
  \<^verbatim>\<open>calculateOrbitalPosition\<close> is one function body in the source; its intermediate
  values \<^verbatim>\<open>meanAnomaly\<close>, \<^verbatim>\<open>eccentricAnomaly\<close> and \<^verbatim>\<open>trueAnomaly\<close> are given
  definitions of their own here, under the names of the source's local constants, so that
  statements can refer to them.
\<close>

definition meanAnomaly :: "real \<Rightarrow> real \<Rightarrow> jsnum" where
  \<comment> \<open>\<^verbatim>\<open>(time / orbitalPeriod) * Math.PI * 2\<close>\<close>
  "meanAnomaly time orbitalPeriod =
     do { q \<leftarrow> js_div time orbitalPeriod; Some (q * pi * 2) }"

fun kepler_loop :: "nat \<Rightarrow> real \<Rightarrow> real \<Rightarrow> real \<Rightarrow> real" where
  \<comment> \<open>the \<^verbatim>\<open>for\<close> loop, with the number of iterations still to run\<close>
  "kepler_loop 0 M e E = E"
| "kepler_loop (Suc n) M e E = kepler_loop n M e (M + e * sin E)"

definition eccentricAnomaly :: "real \<Rightarrow> real \<Rightarrow> real \<Rightarrow> jsnum" where
  "eccentricAnomaly time eccentricity orbitalPeriod =
     do { M \<leftarrow> meanAnomaly time orbitalPeriod;
          Some (kepler_loop 5 M eccentricity M) }"

definition trueAnomaly :: "real \<Rightarrow> real \<Rightarrow> real \<Rightarrow> jsnum" where
  "trueAnomaly time eccentricity orbitalPeriod =
     do { E \<leftarrow> eccentricAnomaly time eccentricity orbitalPeriod;
          s1 \<leftarrow> js_sqrt (1 + eccentricity);
          s2 \<leftarrow> js_sqrt (1 - eccentricity);
          Some (2 * atan2 (s1 * sin (E / 2)) (s2 * cos (E / 2))) }"

definition calculateOrbitalPosition ::
  "real \<Rightarrow> real \<Rightarrow> real \<Rightarrow> real \<Rightarrow> real \<Rightarrow> real \<Rightarrow> real \<Rightarrow> Vector3 option" where
  \<comment> \<open>\<open>None\<close> is the \<^verbatim>\<open>THREE.Vector3\<close> whose coordinates are not finite.\<close>
  "calculateOrbitalPosition time semiMajorAxis eccentricity orbitalPeriod
       inclination longitudeOfAscendingNode argumentOfPeriapsis =
     do { nu \<leftarrow> trueAnomaly time eccentricity orbitalPeriod;
          distance \<leftarrow> js_div (semiMajorAxis * (1 - eccentricity * eccentricity))
                             (1 + eccentricity * cos nu);
          let x_orbital = distance * cos nu;
              y_orbital = distance * sin nu;
              cos_omega = cos (argumentOfPeriapsis * pi / 180);
              sin_omega = sin (argumentOfPeriapsis * pi / 180);
              cos_i = cos (inclination * pi / 180);
              sin_i = sin (inclination * pi / 180);
              cos_Omega = cos (longitudeOfAscendingNode * pi / 180);
              sin_Omega = sin (longitudeOfAscendingNode * pi / 180);
              x = (cos_omega * cos_Omega - sin_omega * sin_Omega * cos_i) * x_orbital +
                  (- sin_omega * cos_Omega - cos_omega * sin_Omega * cos_i) * y_orbital;
              y = (cos_omega * sin_Omega + sin_omega * cos_Omega * cos_i) * x_orbital +
                  (- sin_omega * sin_Omega + cos_omega * cos_Omega * cos_i) * y_orbital;
              z = (sin_omega * sin_i) * x_orbital + (cos_omega * sin_i) * y_orbital
          in Some \<lparr>vx = x, vy = y, vz = z\<rparr> }"

section \<open>Configuration\<close>

text \<open>
  The parts of \<^verbatim>\<open>SolarSystemConfig\<close> that the orbit code reads: the planets, the time
  controls and the render switches. The fields of the configuration itself carry the
  prefix \<open>cfg_\<close>.
\<close>

record planet =
  radius :: real
  semiMajorAxis :: real
  eccentricity :: real
  color :: string
  orbitalPeriod :: real
  rotationPeriod :: real
  inclination :: real
  longitudeOfAscendingNode :: real
  argumentOfPeriapsis :: real
  axialTilt :: real
  name :: string

record time_cfg =
  speed :: real
  paused :: bool

record render_cfg =
  showOrbits :: bool
  showTrails :: bool
  trailLength :: real
  trailFade :: bool

record config =
  cfg_planets :: "planet list"
  cfg_time :: time_cfg
  cfg_render :: render_cfg

definition mercury :: planet where
  \<comment> \<open>the first planet of \<^verbatim>\<open>defaultConfig\<close>\<close>
  "mercury = \<lparr>radius = 4 / 10, semiMajorAxis = 8, eccentricity = 2 / 10,
     color = ''#8C7853'', orbitalPeriod = 12, rotationPeriod = 1, inclination = 15,
     longitudeOfAscendingNode = 0, argumentOfPeriapsis = 0, axialTilt = 235 / 10,
     name = ''Mercury''\<rparr>"

definition planet_position :: "planet \<Rightarrow> real \<Rightarrow> Vector3 option" where
  \<comment> \<open>the call \<^verbatim>\<open>calculateOrbitalPosition(t, planet.semiMajorAxis, ...)\<close> that \<^verbatim>\<open>Planet\<close>,
      \<^verbatim>\<open>Trail\<close> and \<^verbatim>\<open>getCameraTarget\<close> make\<close>
  "planet_position p t =
     calculateOrbitalPosition t (semiMajorAxis p) (eccentricity p) (orbitalPeriod p)
       (inclination p) (longitudeOfAscendingNode p) (argumentOfPeriapsis p)"

section \<open>The simulation clock\<close>

text \<open>
  \<^verbatim>\<open>useTimeSystem\<close> holds the state \<^verbatim>\<open>time\<close> (initially 0); its frame callback reads
  \<^verbatim>\<open>config.time\<close>. The control panel changes \<^verbatim>\<open>config.time\<close> through \<^verbatim>\<open>updateConfig\<close>
  with three controls: the play/pause button, the button with the \<^verbatim>\<open>RotateCcw\<close> icon,
  and the speed slider. \<^verbatim>\<open>setTime\<close> is returned by the hook, and no caller uses it.
\<close>

record sim_state =
  clock :: real
  time_config :: time_cfg

datatype event =
    Frame real          \<comment> \<open>the \<^verbatim>\<open>useFrame\<close> callback with its \<^verbatim>\<open>delta\<close>\<close>
  | PlayPauseClick
  | RotateCcwClick
  | SpeedSlider real

definition initial_state :: sim_state where
  "initial_state = \<lparr>clock = 0, time_config = \<lparr>speed = 1, paused = False\<rparr>\<rparr>"

fun step :: "sim_state \<Rightarrow> event \<Rightarrow> sim_state" where
  "step s (Frame delta) =
     (if \<not> paused (time_config s)
      then s\<lparr>clock := clock s + delta * speed (time_config s)\<rparr>
      else s)"
| "step s PlayPauseClick =
     s\<lparr>time_config := (time_config s)\<lparr>paused := \<not> paused (time_config s)\<rparr>\<rparr>"
| "step s RotateCcwClick =
     s\<lparr>time_config := (time_config s)\<lparr>paused := True\<rparr>\<rparr>"
| "step s (SpeedSlider v) =
     s\<lparr>time_config := (time_config s)\<lparr>speed := v\<rparr>\<rparr>"

definition run :: "sim_state \<Rightarrow> event list \<Rightarrow> sim_state" where
  "run s evs = foldl step s evs"

fun valid_event :: "event \<Rightarrow> bool" where
  \<comment> \<open>a frame delta is not negative; the slider ranges over 0.1 .. 5\<close>
  "valid_event (Frame delta) = (0 \<le> delta)"
| "valid_event (SpeedSlider v) = (0 < v)"
| "valid_event _ = True"

section \<open>The trail\<close>

text \<open>
  The component \<^verbatim>\<open>Trail\<close> reads \<^verbatim>\<open>planet = config.planets[planetIndex]\<close> and
  \<^verbatim>\<open>config.render.showTrails\<close>; the definitions below take that planet and that switch,
  and the clock value \<^verbatim>\<open>time\<close> passed by the scene.
\<close>

record segment =
  position :: "Vector3 option"
  opacity :: real

record line =
  line_from :: "Vector3 option"
  line_to :: "Vector3 option"
  line_opacity :: real

definition maxAngleDegrees :: real where "maxAngleDegrees = 60"

definition maxAngleRadians :: real where "maxAngleRadians = (maxAngleDegrees * pi) / 180"

definition numSegments :: nat where "numSegments = 60"

definition angleStep :: real where "angleStep = maxAngleRadians / real numSegments"

definition trailTime :: "planet \<Rightarrow> real \<Rightarrow> nat \<Rightarrow> real" where
  "trailTime p t i = t - (real i * angleStep * orbitalPeriod p / (pi * 2))"

definition trail_segment :: "planet \<Rightarrow> real \<Rightarrow> nat \<Rightarrow> segment" where
  \<comment> \<open>the object pushed at index \<open>i\<close>\<close>
  "trail_segment p t i =
     \<lparr>position = planet_position p (trailTime p t i),
      opacity = max 0 (1 - real i / real numSegments)\<rparr>"

definition trail_body :: "planet \<Rightarrow> real \<Rightarrow> segment list \<Rightarrow> nat \<Rightarrow> segment list" where
  \<comment> \<open>one round of the \<^verbatim>\<open>for\<close> loop: \<^verbatim>\<open>continue\<close> on a negative time, else \<^verbatim>\<open>push\<close>\<close>
  "trail_body p t segments i =
     (if trailTime p t i < 0 then segments else segments @ [trail_segment p t i])"

definition trail_loop :: "planet \<Rightarrow> real \<Rightarrow> segment list" where
  \<comment> \<open>the array after the loop, newest first\<close>
  "trail_loop p t = foldl (trail_body p t) [] [0..<numSegments]"

definition trailSegments :: "bool \<Rightarrow> planet \<Rightarrow> real \<Rightarrow> segment list" where
  \<comment> \<open>the \<^verbatim>\<open>useMemo\<close> value: reversed, oldest first\<close>
  "trailSegments show_trails p t = (if \<not> show_trails then [] else rev (trail_loop p t))"

definition Trail :: "bool \<Rightarrow> planet \<Rightarrow> real \<Rightarrow> line list option" where
  \<comment> \<open>\<open>None\<close> is the \<^verbatim>\<open>null\<close> that renders nothing; the last index gives no line\<close>
  "Trail show_trails p t =
     (let segs = trailSegments show_trails p t in
      if \<not> show_trails \<or> length segs < 2 then None
      else Some (map (\<lambda>k. \<lparr>line_from = position (segs ! k),
                            line_to = position (segs ! (k + 1)),
                            line_opacity = (opacity (segs ! k) + opacity (segs ! (k + 1))) / 2 * 1\<rparr>)
                     [0..<length segs - 1]))"

definition fullLookback :: "planet \<Rightarrow> real" where
  \<comment> \<open>the time a planet takes over the whole look-back angle of 60 degrees,
      by the conversion \<open>angle \<sqdot> period / 2\<pi>\<close> the loop uses\<close>
  "fullLookback p = maxAngleRadians * orbitalPeriod p / (pi * 2)"

section \<open>The orbit ring\<close>

datatype error = TypeError

definition ring_time :: "nat \<Rightarrow> real" where
  \<comment> \<open>the \<^verbatim>\<open>dummy time\<close> of sample \<open>i\<close>: \<^verbatim>\<open>angle / (Math.PI * 2) * 10\<close>\<close>
  "ring_time i = (let angle = (real i / 64) * pi * 2 in angle / (pi * 2) * 10)"

definition ring_body :: "planet \<Rightarrow> Vector3 option list \<Rightarrow> nat \<Rightarrow> Vector3 option list" where
  "ring_body p points i =
     points @ [calculateOrbitalPosition (ring_time i) (semiMajorAxis p) (eccentricity p) 10
                 (inclination p) (longitudeOfAscendingNode p) (argumentOfPeriapsis p)]"

definition ringPoints :: "planet \<Rightarrow> Vector3 option list" where
  \<comment> \<open>\<^verbatim>\<open>for (let i = 0; i <= segments; i++)\<close> with \<^verbatim>\<open>segments = 64\<close>\<close>
  "ringPoints p = foldl (ring_body p) [] [0..<Suc 64]"

definition OrbitRing :: "config \<Rightarrow> nat \<Rightarrow> error + Vector3 option list option" where
  \<comment> \<open>\<^verbatim>\<open>config.planets[planetIndex]\<close> is \<^verbatim>\<open>undefined\<close> out of range, and reading a field
      of it throws; \<open>Inr None\<close> is the \<^verbatim>\<open>null\<close> returned when orbits are hidden\<close>
  "OrbitRing cfg planetIndex =
     (if planetIndex < length (cfg_planets cfg)
      then (let pts = ringPoints (cfg_planets cfg ! planetIndex) in
            if \<not> showOrbits (cfg_render cfg) then Inr None else Inr (Some pts))
      else Inl TypeError)"

section \<open>The reference algorithm of the specification\<close>

text \<open>
  The second definition of the position, written from the words of the specification
  (section 4.1, steps 1 to 6) and not from the source: rotation matrices, their product,
  and the six steps. It is compared with \<^const>\<open>calculateOrbitalPosition\<close> below.
\<close>

type_synonym vec3 = "real \<times> real \<times> real"
type_synonym mat3 = "vec3 \<times> vec3 \<times> vec3"

definition dot3 :: "vec3 \<Rightarrow> vec3 \<Rightarrow> real" where
  "dot3 u v = (case (u, v) of ((a, b, c), (x, y, z)) \<Rightarrow> a * x + b * y + c * z)"

definition mat_vec :: "mat3 \<Rightarrow> vec3 \<Rightarrow> vec3" where
  "mat_vec m v = (case m of (r1, r2, r3) \<Rightarrow> (dot3 r1 v, dot3 r2 v, dot3 r3 v))"

definition mat_col :: "mat3 \<Rightarrow> nat \<Rightarrow> vec3" where
  "mat_col m j = (case m of ((a1, a2, a3), (b1, b2, b3), (c1, c2, c3)) \<Rightarrow>
     if j = 0 then (a1, b1, c1) else if j = 1 then (a2, b2, c2) else (a3, b3, c3))"

definition mat_mul :: "mat3 \<Rightarrow> mat3 \<Rightarrow> mat3" where
  "mat_mul m n = (case m of (r1, r2, r3) \<Rightarrow>
     ((dot3 r1 (mat_col n 0), dot3 r1 (mat_col n 1), dot3 r1 (mat_col n 2)),
      (dot3 r2 (mat_col n 0), dot3 r2 (mat_col n 1), dot3 r2 (mat_col n 2)),
      (dot3 r3 (mat_col n 0), dot3 r3 (mat_col n 1), dot3 r3 (mat_col n 2))))"

definition R_z :: "real \<Rightarrow> mat3" where
  "R_z th = ((cos th, - sin th, 0), (sin th, cos th, 0), (0, 0, 1))"

definition R_x :: "real \<Rightarrow> mat3" where
  "R_x th = ((1, 0, 0), (0, cos th, - sin th), (0, sin th, cos th))"

definition radians :: "real \<Rightarrow> real" where
  "radians d = d * pi / 180"

definition spec_position ::
  "real \<Rightarrow> real \<Rightarrow> real \<Rightarrow> real \<Rightarrow> real \<Rightarrow> real \<Rightarrow> real \<Rightarrow> vec3" where
  "spec_position t a e P i Om om =
     (let M = (t / P) * (2 * pi);
          E = ((\<lambda>x. M + e * sin x) ^^ 5) M;
          nu = 2 * atan2 (sqrt (1 + e) * sin (E / 2)) (sqrt (1 - e) * cos (E / 2));
          r = a * (1 - e\<^sup>2) / (1 + e * cos nu)
      in mat_vec (mat_mul (R_z (radians Om)) (mat_mul (R_x (radians i)) (R_z (radians om))))
           (r * cos nu, r * sin nu, 0))"

definition Vector3_length :: "Vector3 \<Rightarrow> real" where
  \<comment> \<open>the Euclidean norm, \<^verbatim>\<open>Vector3.length()\<close>\<close>
  "Vector3_length v = sqrt ((vx v)\<^sup>2 + (vy v)\<^sup>2 + (vz v)\<^sup>2)"

section \<open>Facts about the model\<close>

subsection \<open>Where the calculator is finite\<close>

lemma denominator_pos:
  fixes e nu :: real
  assumes "0 \<le> e" "e < 1"
  shows "0 < 1 + e * cos nu"
proof -
  have "- 1 \<le> cos nu" by simp
  then have "e * (- 1) \<le> e * cos nu"
    using assms(1) by (rule mult_left_mono)
  then show ?thesis using assms(2) by simp
qed

lemma trueAnomaly_Some:
  assumes "P \<noteq> 0" "0 \<le> e" "e < 1"
  shows "trueAnomaly t e P =
    Some (2 * atan2 (sqrt (1 + e) * sin (kepler_loop 5 (t / P * pi * 2) e (t / P * pi * 2) / 2))
                    (sqrt (1 - e) * cos (kepler_loop 5 (t / P * pi * 2) e (t / P * pi * 2) / 2)))"
  using assms
  by (simp add: trueAnomaly_def eccentricAnomaly_def meanAnomaly_def js_div_def js_sqrt_def)

lemma calculateOrbitalPosition_None:
  assumes "P = 0 \<or> 1 < e \<or> e < - 1"
  shows "calculateOrbitalPosition t a e P i Om om = None"
  using assms
  by (auto simp: calculateOrbitalPosition_def trueAnomaly_def eccentricAnomaly_def
      meanAnomaly_def js_div_def js_sqrt_def)

lemma calculateOrbitalPosition_Some:
  assumes "P \<noteq> 0" "0 \<le> e" "e < 1"
  shows "\<exists>v. calculateOrbitalPosition t a e P i Om om = Some v"
proof -
  obtain nu where nu: "trueAnomaly t e P = Some nu"
    using trueAnomaly_Some [OF assms] by blast
  have "1 + e * cos nu \<noteq> 0"
    using denominator_pos [OF assms(2,3), of nu] by simp
  then show ?thesis
    by (simp add: calculateOrbitalPosition_def nu js_div_def Let_def)
qed

lemma kepler_loop_funpow:
  "kepler_loop n M e E = ((\<lambda>x. M + e * sin x) ^^ n) E"
proof (induction n arbitrary: E)
  case 0
  show ?case by simp
next
  case (Suc n)
  define f where "f = (\<lambda>x. M + e * sin x)"
  have "kepler_loop (Suc n) M e E = (f ^^ n) (f E)"
    using Suc [of "M + e * sin E"] by (simp add: f_def)
  also have "\<dots> = (f ^^ Suc n) E"
    by (simp add: funpow_swap1)
  finally show ?case by (simp add: f_def)
qed

subsection \<open>The rotation preserves the norm\<close>

lemma rotation_preserves_norm:
  fixes c1 s1 c2 s2 c3 s3 x y :: real
  assumes "s1\<^sup>2 + c1\<^sup>2 = 1" "s2\<^sup>2 + c2\<^sup>2 = 1" "s3\<^sup>2 + c3\<^sup>2 = 1"
  shows "((c1 * c3 - s1 * s3 * c2) * x + (- s1 * c3 - c1 * s3 * c2) * y)\<^sup>2 +
         ((c1 * s3 + s1 * c3 * c2) * x + (- s1 * s3 + c1 * c3 * c2) * y)\<^sup>2 +
         ((s1 * s2) * x + (c1 * s2) * y)\<^sup>2 = x\<^sup>2 + y\<^sup>2"
  using assms by algebra

lemma calculateOrbitalPosition_length:
  assumes nu: "trueAnomaly t e P = Some nu" and d: "1 + e * cos nu \<noteq> 0"
  shows "\<exists>v. calculateOrbitalPosition t a e P i Om om = Some v \<and>
    Vector3_length v = \<bar>a * (1 - e * e) / (1 + e * cos nu)\<bar>"
proof -
  define r where "r = a * (1 - e * e) / (1 + e * cos nu)"
  define x where "x = r * cos nu"
  define y where "y = r * sin nu"
  define c1 where "c1 = cos (om * pi / 180)"
  define s1 where "s1 = sin (om * pi / 180)"
  define c2 where "c2 = cos (i * pi / 180)"
  define s2 where "s2 = sin (i * pi / 180)"
  define c3 where "c3 = cos (Om * pi / 180)"
  define s3 where "s3 = sin (Om * pi / 180)"
  define v where "v = \<lparr>vx = (c1 * c3 - s1 * s3 * c2) * x + (- s1 * c3 - c1 * s3 * c2) * y,
    vy = (c1 * s3 + s1 * c3 * c2) * x + (- s1 * s3 + c1 * c3 * c2) * y,
    vz = (s1 * s2) * x + (c1 * s2) * y\<rparr>"
  have val: "calculateOrbitalPosition t a e P i Om om = Some v"
    by (simp add: calculateOrbitalPosition_def nu js_div_def d Let_def v_def x_def y_def r_def
        c1_def s1_def c2_def s2_def c3_def s3_def)
  have "(vx v)\<^sup>2 + (vy v)\<^sup>2 + (vz v)\<^sup>2 = x\<^sup>2 + y\<^sup>2"
    unfolding v_def Vector3.simps
    by (rule rotation_preserves_norm) (simp_all add: c1_def s1_def c2_def s2_def c3_def s3_def)
  also have "\<dots> = r\<^sup>2"
    by (simp add: x_def y_def power_mult_distrib flip: distrib_left)
  finally have "Vector3_length v = \<bar>r\<bar>"
    by (simp add: Vector3_length_def)
  with val show ?thesis by (auto simp: r_def)
qed

subsection \<open>One period later\<close>

lemma kepler_loop_shift:
  "kepler_loop n (M + 2 * pi) e (E + 2 * pi) = kepler_loop n M e E + 2 * pi"
proof (induction n arbitrary: E)
  case 0
  show ?case by simp
next
  case (Suc n)
  have eq: "M + 2 * pi + e * sin (E + 2 * pi) = (M + e * sin E) + 2 * pi"
    by simp
  show ?case by (simp only: kepler_loop.simps eq Suc)
qed

lemma atan2_neg:
  assumes "x \<noteq> 0 \<or> y \<noteq> 0"
  shows "atan2 (- y) (- x) = atan2 y x + pi \<or> atan2 (- y) (- x) = atan2 y x - pi"
  using assms by (auto simp: atan2_def)

lemma sincos_double_atan2_neg:
  assumes "x \<noteq> 0 \<or> y \<noteq> 0"
  shows "cos (2 * atan2 (- y) (- x)) = cos (2 * atan2 y x)"
    and "sin (2 * atan2 (- y) (- x)) = sin (2 * atan2 y x)"
proof -
  have shift: "2 * atan2 (- y) (- x) = 2 * atan2 y x + 2 * pi \<or>
      2 * atan2 (- y) (- x) = 2 * atan2 y x - 2 * pi"
    using atan2_neg [OF assms] by auto
  have "cos (th - 2 * pi) = cos th" "sin (th - 2 * pi) = sin th" for th :: real
    by (simp_all add: cos_diff sin_diff)
  with shift show "cos (2 * atan2 (- y) (- x)) = cos (2 * atan2 y x)"
    and "sin (2 * atan2 (- y) (- x)) = sin (2 * atan2 y x)"
    by auto
qed

lemma trueAnomaly_periodic:
  assumes P: "P \<noteq> 0" and e: "0 \<le> e" "e < 1"
  shows "\<exists>nu nu'. trueAnomaly t e P = Some nu \<and> trueAnomaly (t + P) e P = Some nu' \<and>
    cos nu' = cos nu \<and> sin nu' = sin nu"
proof -
  define M where "M = t / P * pi * 2"
  define E where "E = kepler_loop 5 M e M"
  define x where "x = sqrt (1 - e) * cos (E / 2)"
  define y where "y = sqrt (1 + e) * sin (E / 2)"
  have M': "(t + P) / P * pi * 2 = M + 2 * pi"
    using P by (simp add: M_def field_simps)
  have E': "kepler_loop 5 (M + 2 * pi) e (M + 2 * pi) = E + 2 * pi"
    unfolding E_def by (rule kepler_loop_shift)
  have half: "(E + 2 * pi) / 2 = E / 2 + pi" by simp
  have nu: "trueAnomaly t e P = Some (2 * atan2 y x)"
    unfolding trueAnomaly_Some [OF P e] x_def y_def E_def M_def ..
  have nu': "trueAnomaly (t + P) e P = Some (2 * atan2 (- y) (- x))"
    unfolding trueAnomaly_Some [OF P e] M' E' half x_def y_def by simp
  have "cos (E / 2) \<noteq> 0 \<or> sin (E / 2) \<noteq> 0"
    using sin_zero_norm_cos_one [of "E / 2"] by auto
  moreover have "sqrt (1 - e) \<noteq> 0" "sqrt (1 + e) \<noteq> 0"
    using e by simp_all
  ultimately have nz: "x \<noteq> 0 \<or> y \<noteq> 0"
    by (simp add: x_def y_def)
  show ?thesis
    using nu nu' sincos_double_atan2_neg [OF nz] by simp
qed

lemma calculateOrbitalPosition_cong:
  assumes "trueAnomaly t e P = Some nu" "trueAnomaly t' e P = Some nu'"
    "cos nu' = cos nu" "sin nu' = sin nu"
  shows "calculateOrbitalPosition t' a e P i Om om = calculateOrbitalPosition t a e P i Om om"
  using assms by (simp add: calculateOrbitalPosition_def)

lemma calculateOrbitalPosition_periodic:
  assumes "P \<noteq> 0" "0 \<le> e" "e < 1"
  shows "calculateOrbitalPosition (t + P) a e P i Om om =
    calculateOrbitalPosition t a e P i Om om"
proof -
  obtain nu nu' where "trueAnomaly t e P = Some nu" "trueAnomaly (t + P) e P = Some nu'"
    "cos nu' = cos nu" "sin nu' = sin nu"
    using trueAnomaly_periodic [OF assms] by blast
  then show ?thesis by (rule calculateOrbitalPosition_cong)
qed

subsection \<open>The true anomaly grows with time\<close>

lemma sin_lipschitz:
  fixes x y :: real
  shows "\<bar>sin x - sin y\<bar> \<le> \<bar>x - y\<bar>"
proof -
  have a: "\<bar>sin ((x - y) / 2)\<bar> \<le> \<bar>(x - y) / 2\<bar>"
    by (rule abs_sin_x_le_abs_x)
  have b: "\<bar>cos ((x + y) / 2)\<bar> \<le> 1"
    by simp
  have "\<bar>sin ((x - y) / 2)\<bar> * \<bar>cos ((x + y) / 2)\<bar> \<le> \<bar>(x - y) / 2\<bar> * 1"
    by (rule mult_mono [OF a b]) simp_all
  then show ?thesis
    by (simp add: sin_diff_sin abs_mult)
qed

lemma kepler_step_mono:
  fixes e M1 M2 E1 E2 :: real
  assumes e: "0 \<le> e" "e < 1 / 2" and M: "M1 < M2" and E: "E1 < E2"
    and gap: "E2 - E1 \<le> 2 * (M2 - M1)"
  shows "M1 + e * sin E1 < M2 + e * sin E2"
    and "(M2 + e * sin E2) - (M1 + e * sin E1) \<le> 2 * (M2 - M1)"
proof -
  define d where "d = sin E2 - sin E1"
  define w where "w = M2 - M1"
  have w: "0 < w" using M by (simp add: w_def)
  have "\<bar>d\<bar> \<le> \<bar>E2 - E1\<bar>"
    unfolding d_def by (rule sin_lipschitz)
  then have "\<bar>d\<bar> \<le> 2 * w"
    using E gap by (simp add: w_def)
  then have "e * \<bar>d\<bar> \<le> e * (2 * w)"
    using e(1) by (rule mult_left_mono)
  moreover have "e * (2 * w) < w"
    using e(2) w by simp
  ultimately have "\<bar>e * d\<bar> < w"
    using e(1) by (simp add: abs_mult)
  moreover have "(M2 + e * sin E2) - (M1 + e * sin E1) = w + e * d"
    by (simp add: w_def d_def algebra_simps)
  ultimately show "M1 + e * sin E1 < M2 + e * sin E2"
    and "(M2 + e * sin E2) - (M1 + e * sin E1) \<le> 2 * (M2 - M1)"
    unfolding w_def [symmetric] by linarith+
qed

lemma kepler_loop_strict_mono:
  assumes "0 \<le> e" "e < 1 / 2" "M1 < M2" "E1 < E2" "E2 - E1 \<le> 2 * (M2 - M1)"
  shows "kepler_loop n M1 e E1 < kepler_loop n M2 e E2"
  using assms(4,5)
proof (induction n arbitrary: E1 E2)
  case 0
  then show ?case by simp
next
  case (Suc n)
  show ?case
    unfolding kepler_loop.simps
    by (rule Suc.IH) (rule kepler_step_mono [OF assms(1-3) Suc.prems])+
qed

lemma kepler_loop_zero: "kepler_loop n 0 e 0 = 0"
  by (induction n) simp_all

lemma kepler_loop_two_pi: "kepler_loop n (2 * pi) e (2 * pi) = 2 * pi"
  using kepler_loop_shift [of n 0 e 0] by (simp add: kepler_loop_zero)

lemma kepler_loop_range:
  assumes "0 \<le> e" "e < 1 / 2" "0 \<le> M" "M < 2 * pi"
  shows "0 \<le> kepler_loop n M e M" and "kepler_loop n M e M < 2 * pi"
proof -
  show "0 \<le> kepler_loop n M e M"
  proof (cases "M = 0")
    case True
    then show ?thesis by (simp add: kepler_loop_zero)
  next
    case False
    then have "0 < M" using assms(3) by simp
    then have "kepler_loop n 0 e 0 < kepler_loop n M e M"
      by (intro kepler_loop_strict_mono assms) simp_all
    then show ?thesis by (simp add: kepler_loop_zero)
  qed
  have "kepler_loop n M e M < kepler_loop n (2 * pi) e (2 * pi)"
    using assms(4) by (intro kepler_loop_strict_mono assms) simp_all
  then show "kepler_loop n M e M < 2 * pi"
    by (simp add: kepler_loop_two_pi)
qed

lemma tan_shift: "tan (x - pi) = tan x"
  using tan_periodic_pi [of "x - pi"] by simp

lemma atan2_ellipse_low:
  assumes "0 < k1" "0 < k2" "0 \<le> th" "th < pi / 2"
  shows "atan2 (k1 * sin th) (k2 * cos th) = arctan (k1 / k2 * tan th)"
proof -
  have "0 < cos th"
    using assms(3,4) by (intro cos_gt_zero_pi) simp_all
  then have "0 < k2 * cos th" using assms(2) by simp
  then show ?thesis by (simp add: atan2_def tan_def)
qed

lemma atan2_ellipse_mid:
  assumes "0 < k1"
  shows "atan2 (k1 * sin (pi / 2)) (k2 * cos (pi / 2)) = pi / 2"
  using assms by (simp add: atan2_def)

lemma atan2_ellipse_high:
  assumes "0 < k1" "0 < k2" "pi / 2 < th" "th < pi"
  shows "atan2 (k1 * sin th) (k2 * cos th) = arctan (k1 / k2 * tan th) + pi"
proof -
  have "0 < cos (th - pi)"
    using assms(3,4) by (intro cos_gt_zero_pi) simp_all
  then have "cos th < 0"
    by (simp add: cos_diff)
  then have x: "k2 * cos th < 0" using assms(2) by (simp add: mult_pos_neg)
  have "0 \<le> sin th"
    using assms(3,4) by (intro sin_ge_zero) simp_all
  then have "0 \<le> k1 * sin th" using assms(1) by simp
  with x show ?thesis by (simp add: atan2_def tan_def)
qed

lemma atan2_ellipse_mono:
  assumes k: "0 < k1" "0 < k2" and ab: "0 \<le> a" "a < b" "b < pi"
  shows "atan2 (k1 * sin a) (k2 * cos a) < atan2 (k1 * sin b) (k2 * cos b)"
proof -
  define k where "k = k1 / k2"
  have kpos: "0 < k" using k by (simp add: k_def)
  note low = atan2_ellipse_low [OF k, folded k_def]
  note high = atan2_ellipse_high [OF k, folded k_def]
  note mid = atan2_ellipse_mid [OF k(1), of k2]
  consider (ll) "b < pi / 2" | (lm) "a < pi / 2" "b = pi / 2" | (lh) "a < pi / 2" "pi / 2 < b"
    | (mh) "a = pi / 2" | (hh) "pi / 2 < a"
    by linarith
  then show ?thesis
  proof cases
    case ll
    have "tan a < tan b"
      using ab ll by (intro tan_monotone) simp_all
    then have "k * tan a < k * tan b" using kpos by simp
    then have "arctan (k * tan a) < arctan (k * tan b)" by (rule arctan_monotone)
    then show ?thesis using ab ll by (simp add: low)
  next
    case lm
    have "atan2 (k1 * sin a) (k2 * cos a) = arctan (k * tan a)"
      by (rule low [OF ab(1) lm(1)])
    moreover have "atan2 (k1 * sin b) (k2 * cos b) = pi / 2"
      unfolding lm(2) by (rule mid)
    ultimately show ?thesis
      using arctan_ubound [of "k * tan a"] by linarith
  next
    case lh
    have "atan2 (k1 * sin a) (k2 * cos a) = arctan (k * tan a)"
      by (rule low [OF ab(1) lh(1)])
    moreover have "atan2 (k1 * sin b) (k2 * cos b) = arctan (k * tan b) + pi"
      by (rule high [OF lh(2) ab(3)])
    ultimately show ?thesis
      using arctan_ubound [of "k * tan a"] arctan_lbound [of "k * tan b"] by linarith
  next
    case mh
    have "pi / 2 < b" using ab(2) mh by simp
    then have "atan2 (k1 * sin b) (k2 * cos b) = arctan (k * tan b) + pi"
      by (rule high [OF _ ab(3)])
    moreover have "atan2 (k1 * sin a) (k2 * cos a) = pi / 2"
      unfolding mh by (rule mid)
    ultimately show ?thesis
      using arctan_lbound [of "k * tan b"] by linarith
  next
    case hh
    have "tan (a - pi) < tan (b - pi)"
      using ab hh by (intro tan_monotone) simp_all
    then have "tan a < tan b" by (simp only: tan_shift)
    then have "k * tan a < k * tan b" using kpos by simp
    then have "arctan (k * tan a) < arctan (k * tan b)" by (rule arctan_monotone)
    then show ?thesis using ab hh by (simp add: high)
  qed
qed

subsection \<open>Runs of the clock\<close>

lemma run_speed_pos:
  assumes "0 < speed (time_config s)" "\<forall>ev\<in>set evs. valid_event ev"
  shows "0 < speed (time_config (run s evs))"
  using assms unfolding run_def
proof (induction evs arbitrary: s)
  case Nil
  then show ?case by simp
next
  case (Cons ev evs)
  have "0 < speed (time_config (step s ev))"
    using Cons.prems by (cases ev) simp_all
  then show ?case using Cons by simp
qed

lemma step_clock_mono:
  assumes "0 < speed (time_config s)" "valid_event ev"
  shows "clock s \<le> clock (step s ev)"
  using assms by (cases ev) simp_all

lemma run_clock_mono:
  assumes "0 < speed (time_config s)" "\<forall>ev\<in>set evs. valid_event ev"
  shows "clock s \<le> clock (run s evs)"
  using assms unfolding run_def
proof (induction evs arbitrary: s)
  case Nil
  then show ?case by simp
next
  case (Cons ev evs)
  have sp: "0 < speed (time_config (step s ev))"
    using Cons.prems by (cases ev) simp_all
  have "clock s \<le> clock (step s ev)"
    using Cons.prems step_clock_mono by simp
  also have "\<dots> \<le> clock (foldl step (step s ev) evs)"
    using Cons.IH [OF sp] Cons.prems(2) by simp
  finally show ?case by simp
qed

subsection \<open>The loop of the orbit ring\<close>

lemma ring_loop:
  "foldl (ring_body p) acc [0..<n] =
   acc @ map (\<lambda>i. calculateOrbitalPosition (ring_time i) (semiMajorAxis p) (eccentricity p) 10
                 (inclination p) (longitudeOfAscendingNode p) (argumentOfPeriapsis p)) [0..<n]"
  by (induction n) (simp_all add: ring_body_def)

lemma ring_time_eq: "ring_time i = real i / 64 * 10"
  by (simp add: ring_time_def)

lemma ringPoints_nth:
  assumes "k \<le> 64"
  shows "ringPoints p ! k =
    calculateOrbitalPosition (real k / 64 * 10) (semiMajorAxis p) (eccentricity p) 10
      (inclination p) (longitudeOfAscendingNode p) (argumentOfPeriapsis p)"
proof -
  have len: "k < length [0..<Suc 64]" using assms by simp
  have "[0..<Suc 64] ! k = 0 + k"
    by (rule nth_upt) (use assms in simp)
  then show ?thesis
    unfolding ringPoints_def ring_loop
    by (simp only: append_Nil nth_map [OF len] ring_time_eq add_0)
qed

lemma ringPoints_length: "length (ringPoints p) = 65"
  by (simp add: ringPoints_def ring_loop)

subsection \<open>The loop of the trail\<close>

lemma trailTime_eq: "trailTime p t i = t - real i * orbitalPeriod p / 360"
  by (simp add: trailTime_def angleStep_def maxAngleRadians_def maxAngleDegrees_def
      numSegments_def)

lemma fullLookback_eq: "fullLookback p = orbitalPeriod p / 6"
  by (simp add: fullLookback_def maxAngleRadians_def maxAngleDegrees_def)

lemma trail_fold:
  "foldl (trail_body p t) acc [0..<n] =
   acc @ map (trail_segment p t) (filter (\<lambda>i. \<not> trailTime p t i < 0) [0..<n])"
  by (induction n) (simp_all add: trail_body_def)

lemma filter_upt_prefix:
  assumes "\<And>i j. i \<le> j \<Longrightarrow> Q j \<Longrightarrow> Q i"
  shows "filter Q [0..<n] = [0..<length (filter Q [0..<n])]"
proof (induction n)
  case 0
  show ?case by simp
next
  case (Suc n)
  show ?case
  proof (cases "Q n")
    case True
    have "Q i" if "i < n" for i
      using assms [of i n] that True by simp
    then have "\<forall>i\<in>set [0..<n]. Q i"
      by simp
    then have "filter Q [0..<n] = [0..<n]"
      by (simp only: filter_True)
    with True show ?thesis by simp
  next
    case False
    with Suc show ?thesis by simp
  qed
qed

lemma trailTime_antimono:
  assumes "0 < orbitalPeriod p" "i \<le> j"
  shows "trailTime p t j \<le> trailTime p t i"
proof -
  have "real i * orbitalPeriod p \<le> real j * orbitalPeriod p"
    using assms by (simp add: mult_right_mono)
  then show ?thesis by (simp add: trailTime_eq divide_right_mono)
qed

lemma trail_loop_prefix:
  assumes P: "0 < orbitalPeriod p"
  shows "trail_loop p t = map (trail_segment p t) [0..<length (trail_loop p t)]"
    and "length (trail_loop p t) \<le> 60"
    and "i < 60 \<Longrightarrow> (i < length (trail_loop p t)) = (0 \<le> trailTime p t i)"
proof -
  define Q where "Q = (\<lambda>i. \<not> trailTime p t i < 0)"
  define N where "N = length (filter Q [0..<60])"
  have down: "Q i" if "i \<le> j" "Q j" for i j
    using that trailTime_antimono [OF P that(1), of t] by (simp add: Q_def)
  have pre: "filter Q [0..<60] = [0..<N]"
    unfolding N_def using down by (rule filter_upt_prefix)
  have loop: "trail_loop p t = map (trail_segment p t) [0..<N]"
    using pre by (simp add: trail_loop_def numSegments_def trail_fold Q_def)
  then have len: "length (trail_loop p t) = N" by simp
  show "trail_loop p t = map (trail_segment p t) [0..<length (trail_loop p t)]"
    using loop len by simp
  have "N \<le> length [0..<(60::nat)]"
    unfolding N_def by (rule length_filter_le)
  then show "length (trail_loop p t) \<le> 60"
    using len by simp
  show "(i < length (trail_loop p t)) = (0 \<le> trailTime p t i)" if "i < 60"
  proof -
    have "i \<in> set (filter Q [0..<60]) \<longleftrightarrow> i \<in> set [0..<N]"
      by (simp only: pre)
    then show ?thesis using that by (simp add: len Q_def not_less)
  qed
qed

lemma trail_length_pos:
  assumes "0 < orbitalPeriod p" "0 \<le> t"
  shows "0 < length (trail_loop p t)"
  using trail_loop_prefix(3) [OF assms(1), of 0 t] assms(2) by (simp add: trailTime_eq)

lemma trail_length_full:
  assumes "0 < orbitalPeriod p" "59 * orbitalPeriod p / 360 \<le> t"
  shows "length (trail_loop p t) = 60"
proof -
  have "59 < length (trail_loop p t)"
    using trail_loop_prefix(3) [OF assms(1), of 59 t] assms(2) by (simp add: trailTime_eq)
  then show ?thesis
    using trail_loop_prefix(2) [OF assms(1), of t] by simp
qed

lemma trail_length_truncated:
  assumes "0 < orbitalPeriod p" "t < 59 * orbitalPeriod p / 360"
  shows "length (trail_loop p t) < 60"
proof -
  have "\<not> 59 < length (trail_loop p t)"
    using trail_loop_prefix(3) [OF assms(1), of 59 t] assms(2) by (simp add: trailTime_eq)
  then show ?thesis by simp
qed

lemma trail_length_zero:
  assumes "0 < orbitalPeriod p"
  shows "length (trail_loop p 0) = 1"
proof -
  have "0 < length (trail_loop p 0)"
    using trail_length_pos [OF assms, of 0] by simp
  moreover have "\<not> 1 < length (trail_loop p 0)"
    using trail_loop_prefix(3) [OF assms, of 1 0] assms by (simp add: trailTime_eq)
  ultimately show ?thesis by linarith
qed

lemma trail_opacity_nth:
  assumes "0 < orbitalPeriod p" "i < length (trail_loop p t)"
  shows "opacity (trail_loop p t ! i) = 1 - real i / 60"
proof -
  have "i < 60"
    using assms(2) trail_loop_prefix(2) [OF assms(1), of t] by simp
  then have "0 \<le> 1 - real i / 60" by simp
  moreover have "trail_loop p t ! i = trail_segment p t i"
    using assms(2) by (subst trail_loop_prefix(1) [OF assms(1)]) simp
  ultimately show ?thesis
    by (simp add: trail_segment_def numSegments_def)
qed

lemma trail_oldest_opacity:
  assumes "0 < orbitalPeriod p" "0 \<le> t"
  shows "opacity (hd (trailSegments True p t)) = 1 - (real (length (trail_loop p t)) - 1) / 60"
proof -
  define N where "N = length (trail_loop p t)"
  have N: "0 < N" unfolding N_def by (rule trail_length_pos [OF assms])
  then have ne: "trail_loop p t \<noteq> []" by (auto simp: N_def)
  have "hd (trailSegments True p t) = last (trail_loop p t)"
    using ne by (simp add: trailSegments_def hd_rev)
  also have "\<dots> = trail_loop p t ! (N - 1)"
    using ne by (simp add: last_conv_nth N_def)
  finally have hd: "hd (trailSegments True p t) = trail_loop p t ! (N - 1)" .
  have "N - 1 < length (trail_loop p t)"
    using N by (simp add: N_def)
  then have a: "opacity (trail_loop p t ! (N - 1)) = 1 - real (N - 1) / 60"
    by (rule trail_opacity_nth [OF assms(1)])
  have b: "real (N - 1) = real N - 1"
    using N by (cases N) simp_all
  show ?thesis
    unfolding N_def [symmetric] hd a b ..
qed

lemma trail_opacity_sorted:
  assumes "0 < orbitalPeriod p"
  shows "sorted_wrt (\<lambda>a b. b \<le> a) (map opacity (trail_loop p t))"
proof -
  have "opacity (trail_loop p t ! j) \<le> opacity (trail_loop p t ! i)"
    if "i < j" "j < length (trail_loop p t)" for i j
  proof -
    have "i < length (trail_loop p t)" using that by simp
    then show ?thesis
      using that by (simp add: trail_opacity_nth [OF assms])
  qed
  then show ?thesis
    by (simp add: sorted_wrt_iff_nth_less)
qed

lemma trail_sample_times:
  assumes "0 < orbitalPeriod p" "i < length (trail_loop p t)"
  shows "0 \<le> trailTime p t i" and "trailTime p t i \<le> t"
proof -
  have "i < 60"
    using assms(2) trail_loop_prefix(2) [OF assms(1), of t] by simp
  then show "0 \<le> trailTime p t i"
    using trail_loop_prefix(3) [OF assms(1), of i t] assms(2) by simp
  show "trailTime p t i \<le> t"
    using trailTime_antimono [OF assms(1), of 0 i t] by (simp add: trailTime_eq)
qed

lemma trail_skipped:
  assumes "0 < orbitalPeriod p" "i < 60" "length (trail_loop p t) \<le> i"
  shows "trailTime p t i < 0"
  using trail_loop_prefix(3) [OF assms(1,2), of t] assms(3) by simp

lemma Trail_null:
  assumes "length (trailSegments True p t) < 2"
  shows "Trail True p t = None"
  using assms by (simp add: Trail_def)

lemma Trail_oldest_line:
  assumes P: "0 < orbitalPeriod p" and N: "2 \<le> length (trail_loop p t)"
  shows "\<exists>ls. Trail True p t = Some ls \<and> length ls = length (trail_loop p t) - 1 \<and>
    line_opacity (hd ls) = 1 - (2 * real (length (trail_loop p t)) - 3) / 120"
proof -
  define N where "N = length (trail_loop p t)"
  define segs where "segs = trailSegments True p t"
  define f where "f = (\<lambda>k. \<lparr>line_from = position (segs ! k),
      line_to = position (segs ! (k + 1)),
      line_opacity = (opacity (segs ! k) + opacity (segs ! (k + 1))) / 2 * 1\<rparr>)"
  have N2: "2 \<le> N" using N by (simp add: N_def)
  have segs: "segs = rev (trail_loop p t)"
    by (simp add: segs_def trailSegments_def)
  have len: "length segs = N"
    by (simp add: segs N_def)
  have val: "Trail True p t = Some (map f [0..<N - 1])"
    using N2 by (simp add: Trail_def Let_def segs_def [symmetric] len f_def)
  have "[0..<N - 1] = 0 # [1..<N - 1]"
    using N2 by (simp add: upt_conv_Cons)
  then have hd: "hd (map f [0..<N - 1]) = f 0" by simp
  have l0: "0 < length (trail_loop p t)" and l1: "1 < length (trail_loop p t)"
    using N by linarith+
  have s0: "segs ! 0 = trail_loop p t ! (N - 1)"
    using rev_nth [OF l0] by (simp add: segs N_def)
  have s1: "segs ! (0 + 1) = trail_loop p t ! (N - 2)"
    using rev_nth [OF l1] by (simp add: segs N_def numeral_2_eq_2)
  have o0: "opacity (trail_loop p t ! (N - 1)) = 1 - real (N - 1) / 60"
    using N2 by (intro trail_opacity_nth [OF P]) (simp add: N_def)
  have o1: "opacity (trail_loop p t ! (N - 2)) = 1 - real (N - 2) / 60"
    using N2 by (intro trail_opacity_nth [OF P]) (simp add: N_def)
  have r1: "real (N - 1) = real N - 1" and r2: "real (N - 2) = real N - 2"
    using N2 by (simp_all add: of_nat_diff)
  have "line_opacity (f 0) = (opacity (segs ! 0) + opacity (segs ! (0 + 1))) / 2 * 1"
    unfolding f_def line.simps ..
  also have "\<dots> = ((1 - (real N - 1) / 60) + (1 - (real N - 2) / 60)) / 2 * 1"
    unfolding s0 s1 o0 o1 r1 r2 ..
  also have "\<dots> = 1 - (2 * real N - 3) / 120"
    by (simp add: field_simps)
  finally have "line_opacity (f 0) = 1 - (2 * real N - 3) / 120" .
  with val hd show ?thesis
    unfolding N_def [symmetric] by simp
qed

section \<open>Claims\<close>

subsection \<open>C1\<close>

text \<open>
  C1 (as amended). The position computation has no error result. With
  \<open>orbitalPeriod = 0\<close>, or with an eccentricity above \<open>1\<close> or below \<open>-1\<close>, it returns a
  vector whose coordinates are not finite; for every in-range input (\<open>orbitalPeriod \<noteq> 0\<close>
  and eccentricity in \<open>[0, 1)\<close>) it returns a finite triple.
\<close>

theorem C1_no_error_result:
  "(P = 0 \<or> 1 < e \<or> e < - 1 \<longrightarrow> calculateOrbitalPosition t a e P i Om om = None) \<and>
   (P \<noteq> 0 \<and> 0 \<le> e \<and> e < 1 \<longrightarrow> (\<exists>v. calculateOrbitalPosition t a e P i Om om = Some v))"
  using calculateOrbitalPosition_None [of P e t a i Om om]
    calculateOrbitalPosition_Some [of P e t a i Om om]
  by blast

theorem C1_no_error_result_witness:
  "calculateOrbitalPosition 1 1 0 0 0 0 0 = None \<and>
   (\<exists>v. calculateOrbitalPosition 0 1 0 1 0 0 0 = Some v)"
  using C1_no_error_result [of 0 0 1 1 0 0 0] C1_no_error_result [of 1 0 0 1 0 0 0]
  by simp

text \<open>
  C1 as the specification states it fails: with a zero period the result is the vector
  of non-finite coordinates, and with the eccentricity \<open>-1/2\<close>, outside \<open>[0, 1)\<close>, the
  result is an ordinary finite position. Neither is an error result.
\<close>

theorem C1_counterexample:
  "calculateOrbitalPosition 1 1 0 0 0 0 0 = None \<and>
   calculateOrbitalPosition 0 1 (- 1 / 2) 1 0 0 0 = Some \<lparr>vx = 3 / 2, vy = 0, vz = 0\<rparr>"
  by (simp add: calculateOrbitalPosition_def trueAnomaly_def eccentricAnomaly_def
      meanAnomaly_def js_div_def js_sqrt_def atan2_def eval_nat_numeral)

subsection \<open>C2\<close>

text \<open>
  C2. For a positive semi-major axis, an eccentricity in \<open>[0, 1)\<close> and a positive period,
  \<^const>\<open>calculateOrbitalPosition\<close> returns the position of the specification's reference
  algorithm: mean anomaly \<open>(t/P)\<sqdot>2\<pi>\<close> without reduction, the fifth iterate of
  \<open>x \<mapsto> M + e\<sqdot>sin x\<close> from \<open>M\<close>, the true anomaly by \<open>atan2\<close>, the radius, and the product
  \<open>R_z(\<Omega>)\<sqdot>R_x(i)\<sqdot>R_z(\<omega>)\<close> with the angles in radians.
\<close>

theorem C2_refines_spec:
  assumes "0 < a" "0 \<le> e" "e < 1" "0 < P"
  shows "calculateOrbitalPosition t a e P i Om om =
    Some \<lparr>vx = fst (spec_position t a e P i Om om),
          vy = fst (snd (spec_position t a e P i Om om)),
          vz = snd (snd (spec_position t a e P i Om om))\<rparr>"
proof -
  have P: "P \<noteq> 0" using assms by simp
  have d: "1 + e * cos nu \<noteq> 0" for nu
    using denominator_pos [OF assms(2,3), of nu] by simp
  show ?thesis
    by (simp add: calculateOrbitalPosition_def trueAnomaly_Some [OF P assms(2,3)] js_div_def d
        spec_position_def Let_def kepler_loop_funpow mat_vec_def mat_mul_def mat_col_def dot3_def
        R_z_def R_x_def radians_def power2_eq_square algebra_simps)
qed

theorem C2_refines_spec_witness:
  "(0::real) < 1 \<and> (0::real) \<le> 0 \<and> (0::real) < 1 \<and>
   calculateOrbitalPosition 0 1 0 1 0 0 0 =
    Some \<lparr>vx = fst (spec_position 0 1 0 1 0 0 0),
          vy = fst (snd (spec_position 0 1 0 1 0 0 0)),
          vz = snd (snd (spec_position 0 1 0 1 0 0 0))\<rparr>"
  using C2_refines_spec [of 1 0 1 0 0 0 0] by simp

subsection \<open>C3\<close>

text \<open>
  C3 (as amended). For a positive period and a time \<open>t \<ge> 0\<close> the trail is not empty; the
  opacities of its segments, newest first as the loop generates them (the rendered list
  is this one reversed), are non-increasing from the newest to the oldest; the newest
  segment has opacity \<open>1\<close>; the oldest of \<open>N\<close> segments has opacity \<open>1 - (N - 1)/60\<close>, which
  is positive.
\<close>

theorem C3_trail_opacity:
  assumes "0 < orbitalPeriod p" "0 \<le> t"
  shows "trail_loop p t \<noteq> [] \<and>
    trailSegments True p t = rev (trail_loop p t) \<and>
    sorted_wrt (\<lambda>a b. b \<le> a) (map opacity (trail_loop p t)) \<and>
    opacity (hd (trail_loop p t)) = 1 \<and>
    opacity (last (trail_loop p t)) = 1 - (real (length (trail_loop p t)) - 1) / 60 \<and>
    0 < opacity (last (trail_loop p t))"
proof -
  have pos: "0 < length (trail_loop p t)"
    by (rule trail_length_pos [OF assms])
  then have ne: "trail_loop p t \<noteq> []" by auto
  have "hd (trail_loop p t) = trail_loop p t ! 0"
    using ne by (simp add: hd_conv_nth)
  then have first: "opacity (hd (trail_loop p t)) = 1"
    using trail_opacity_nth [OF assms(1) pos] by simp
  have "hd (trailSegments True p t) = last (trail_loop p t)"
    by (simp add: trailSegments_def hd_rev)
  then have oldest: "opacity (last (trail_loop p t)) =
      1 - (real (length (trail_loop p t)) - 1) / 60"
    using trail_oldest_opacity [OF assms] by simp
  have "real (length (trail_loop p t)) \<le> 60"
    using trail_loop_prefix(2) [OF assms(1), of t] by simp
  then have "0 < opacity (last (trail_loop p t))"
    unfolding oldest by simp
  with ne first oldest trail_opacity_sorted [OF assms(1), of t] show ?thesis
    by (simp add: trailSegments_def)
qed

theorem C3_trail_opacity_witness:
  "0 < orbitalPeriod mercury \<and> (0::real) \<le> 1 \<and>
   trail_loop mercury 1 \<noteq> [] \<and>
   sorted_wrt (\<lambda>a b. b \<le> a) (map opacity (trail_loop mercury 1)) \<and>
   opacity (hd (trail_loop mercury 1)) = 1 \<and>
   0 < opacity (last (trail_loop mercury 1))"
proof -
  have h: "0 < orbitalPeriod mercury" "(0::real) \<le> 1"
    by (simp_all add: mercury_def)
  show ?thesis
    using h C3_trail_opacity [OF h] by blast
qed

text \<open>
  C3 as the specification states it fails: the full trail of Mercury at time \<open>100\<close> has
  60 segments and its oldest segment has opacity \<open>1/60\<close>, not \<open>0\<close>.
\<close>

theorem C3_counterexample:
  "length (trail_loop mercury 100) = 60 \<and> opacity (last (trail_loop mercury 100)) = 1 / 60"
proof -
  have P: "0 < orbitalPeriod mercury" by (simp add: mercury_def)
  have len: "length (trail_loop mercury 100) = 60"
    by (rule trail_length_full [OF P]) (simp add: mercury_def)
  then have "trail_loop mercury 100 \<noteq> []" by auto
  then have "last (trail_loop mercury 100) = trail_loop mercury 100 ! 59"
    by (simp add: last_conv_nth len)
  moreover have "opacity (trail_loop mercury 100 ! 59) = 1 - real 59 / 60"
    by (rule trail_opacity_nth [OF P]) (simp add: len)
  ultimately show ?thesis using len by simp
qed

subsection \<open>C4\<close>

text \<open>
  C4. For valid elements (\<open>a > 0\<close>, \<open>e\<close> in \<open>[0, 1)\<close>, \<open>P > 0\<close>) the position at time
  \<open>t + P\<close> is the position at time \<open>t\<close>, a finite vector, exactly (over the reals),
  with all other arguments unchanged.
\<close>

theorem C4_periodic:
  assumes "0 < a" "0 \<le> e" "e < 1" "0 < P"
  shows "calculateOrbitalPosition (t + P) a e P i Om om =
           calculateOrbitalPosition t a e P i Om om \<and>
         (\<exists>v. calculateOrbitalPosition t a e P i Om om = Some v)"
proof -
  have P: "P \<noteq> 0" using assms by simp
  show ?thesis
    using calculateOrbitalPosition_periodic [OF P assms(2,3)]
      calculateOrbitalPosition_Some [OF P assms(2,3)] by simp
qed

theorem C4_periodic_witness:
  "(0::real) < 8 \<and> (0::real) \<le> 1 / 5 \<and> (1 / 5 :: real) < 1 \<and> (0::real) < 12 \<and>
   calculateOrbitalPosition (3 + 12) 8 (1 / 5) 12 15 0 0 =
     calculateOrbitalPosition 3 8 (1 / 5) 12 15 0 0 \<and>
   (\<exists>v. calculateOrbitalPosition 3 8 (1 / 5) 12 15 0 0 = Some v)"
  using C4_periodic [of 8 "1 / 5" 12 3 15 0 0] by simp

subsection \<open>C5\<close>

text \<open>
  C5. With eccentricity \<open>0\<close>, a positive semi-major axis \<open>a\<close> and a positive period, the
  position at every time and under every orientation has Euclidean norm \<open>a\<close>.
\<close>

theorem C5_circular_orbit_radius:
  assumes "0 < a" "0 < P"
  shows "\<exists>v. calculateOrbitalPosition t a 0 P i Om om = Some v \<and> Vector3_length v = a"
proof -
  have P: "P \<noteq> 0" using assms by simp
  obtain nu where nu: "trueAnomaly t 0 P = Some nu"
    using trueAnomaly_Some [OF P, of 0 t] by simp
  show ?thesis
    using calculateOrbitalPosition_length [OF nu, of a i Om om] assms(1) by simp
qed

theorem C5_circular_orbit_radius_witness:
  "(0::real) < 10 \<and> (0::real) < 100 \<and>
   (\<exists>v. calculateOrbitalPosition 25 10 0 100 0 0 0 = Some v \<and> Vector3_length v = 10)"
  using C5_circular_orbit_radius [of 10 100 25 0 0 0] by simp

subsection \<open>C6\<close>

text \<open>
  C6. The orbit ring of a planet with eccentricity in \<open>[0, 1)\<close> has 65 points; point \<open>k\<close>
  is the position at the fraction \<open>k/64\<close> of the fixed reference period \<open>10\<close>; the first
  point (phase 0) equals the last (phase 1) and is finite, so the polyline is closed. The
  ring is computed from the planet alone: the clock is no input of it, and changing the
  time controls (speed, paused) of the configuration changes nothing.
\<close>

theorem C6_ring_closed:
  assumes "0 \<le> eccentricity p" "eccentricity p < 1"
  shows "length (ringPoints p) = 65 \<and>
    (\<forall>k\<le>64. ringPoints p ! k =
       calculateOrbitalPosition (real k / 64 * 10) (semiMajorAxis p) (eccentricity p) 10
         (inclination p) (longitudeOfAscendingNode p) (argumentOfPeriapsis p)) \<and>
    ringPoints p ! 0 = ringPoints p ! 64 \<and>
    (\<exists>v. ringPoints p ! 0 = Some v) \<and>
    OrbitRing (cfg\<lparr>cfg_time := tc\<rparr>) planetIndex = OrbitRing cfg planetIndex"
proof -
  have "ringPoints p ! 64 = calculateOrbitalPosition (0 + 10) (semiMajorAxis p) (eccentricity p) 10
         (inclination p) (longitudeOfAscendingNode p) (argumentOfPeriapsis p)"
    by (simp add: ringPoints_nth)
  also have "\<dots> = calculateOrbitalPosition 0 (semiMajorAxis p) (eccentricity p) 10
         (inclination p) (longitudeOfAscendingNode p) (argumentOfPeriapsis p)"
    by (rule calculateOrbitalPosition_periodic) (use assms in simp_all)
  also have "\<dots> = ringPoints p ! 0"
    by (simp add: ringPoints_nth)
  finally have closed: "ringPoints p ! 0 = ringPoints p ! 64" by simp
  have fin: "\<exists>v. ringPoints p ! 0 = Some v"
    using calculateOrbitalPosition_Some [OF _ assms, of 10 0] by (simp add: ringPoints_nth)
  have "OrbitRing (cfg\<lparr>cfg_time := tc\<rparr>) planetIndex = OrbitRing cfg planetIndex"
    by (simp add: OrbitRing_def)
  with closed fin show ?thesis
    by (simp add: ringPoints_length ringPoints_nth)
qed

theorem C6_ring_closed_witness:
  "0 \<le> eccentricity mercury \<and> eccentricity mercury < 1 \<and>
   length (ringPoints mercury) = 65 \<and>
   ringPoints mercury ! 0 = ringPoints mercury ! 64 \<and>
   (\<exists>v. ringPoints mercury ! 0 = Some v) \<and>
   OrbitRing (\<lparr>cfg_planets = [mercury], cfg_time = \<lparr>speed = 1, paused = False\<rparr>,
       cfg_render = \<lparr>showOrbits = True, showTrails = False, trailLength = 100, trailFade = True\<rparr>\<rparr>
         \<lparr>cfg_time := \<lparr>speed = 5, paused = True\<rparr>\<rparr>) 0 =
   OrbitRing \<lparr>cfg_planets = [mercury], cfg_time = \<lparr>speed = 1, paused = False\<rparr>,
       cfg_render = \<lparr>showOrbits = True, showTrails = False, trailLength = 100, trailFade = True\<rparr>\<rparr> 0"
proof -
  have h: "0 \<le> eccentricity mercury" "eccentricity mercury < 1"
    by (simp_all add: mercury_def)
  show ?thesis
    using h C6_ring_closed [OF h, where planetIndex = 0
      and tc = "\<lparr>speed = 5, paused = True\<rparr>"
      and cfg = "\<lparr>cfg_planets = [mercury], cfg_time = \<lparr>speed = 1, paused = False\<rparr>,
       cfg_render = \<lparr>showOrbits = True, showTrails = False, trailLength = 100, trailFade = True\<rparr>\<rparr>"]
    by blast
qed

subsection \<open>C7\<close>

text \<open>
  C7. A frame callback with delta \<open>elapsed\<close> turns the clock \<open>time\<close> into
  \<open>time + elapsed \<sqdot> speed\<close> when the simulation is not paused and leaves it unchanged when
  it is paused. Along every run from the initial state whose frame deltas are not negative
  and whose slider speeds are positive, the clock never decreases: its value after any
  prefix of the run is at most its value after the whole run. (No control resets it.)
\<close>

theorem C7_clock_never_decreases:
  assumes "\<forall>ev\<in>set (evs1 @ evs2). valid_event ev"
  shows "clock (step s (Frame elapsed)) =
           (if paused (time_config s) then clock s
            else clock s + elapsed * speed (time_config s)) \<and>
         clock (run initial_state evs1) \<le> clock (run initial_state (evs1 @ evs2))"
proof -
  have v1: "\<forall>ev\<in>set evs1. valid_event ev" and v2: "\<forall>ev\<in>set evs2. valid_event ev"
    using assms by simp_all
  have "0 < speed (time_config (run initial_state evs1))"
    by (rule run_speed_pos [OF _ v1]) (simp add: initial_state_def)
  from run_clock_mono [OF this v2]
  have "clock (run initial_state evs1) \<le> clock (run initial_state (evs1 @ evs2))"
    by (simp add: run_def)
  then show ?thesis by simp
qed

theorem C7_clock_never_decreases_witness:
  "clock (step initial_state (Frame 2)) = 2 \<and>
   clock (run initial_state [Frame 1, PlayPauseClick, Frame 1]) \<le>
   clock (run initial_state ([Frame 1, PlayPauseClick, Frame 1] @
       [RotateCcwClick, SpeedSlider 2, PlayPauseClick, Frame 3]))"
  using C7_clock_never_decreases [of "[Frame 1, PlayPauseClick, Frame 1]"
      "[RotateCcwClick, SpeedSlider 2, PlayPauseClick, Frame 3]" initial_state 2]
  by (simp add: initial_state_def)

subsection \<open>C8\<close>

text \<open>
  C8. For every eccentricity in \<open>[0, 1/2)\<close> (so for all sufficiently small ones, and for
  \<open>0\<close>) and every positive period \<open>P\<close>, the true anomaly computed inside
  \<^const>\<open>calculateOrbitalPosition\<close> is a finite number that strictly increases with the time
  within one period: \<open>0 \<le> t1 < t2 < P\<close> gives \<open>trueAnomaly(t1) < trueAnomaly(t2)\<close>.
\<close>

theorem C8_true_anomaly_increasing:
  assumes "0 \<le> e" "e < 1 / 2" "0 < P" "0 \<le> t1" "t1 < t2" "t2 < P"
  shows "\<exists>nu1 nu2. trueAnomaly t1 e P = Some nu1 \<and> trueAnomaly t2 e P = Some nu2 \<and> nu1 < nu2"
proof -
  define M1 where "M1 = t1 / P * pi * 2"
  define M2 where "M2 = t2 / P * pi * 2"
  define E1 where "E1 = kepler_loop 5 M1 e M1"
  define E2 where "E2 = kepler_loop 5 M2 e M2"
  have P: "P \<noteq> 0" and e1: "e < 1" using assms by simp_all
  have M1: "0 \<le> M1" using assms by (simp add: M1_def)
  have "t1 / P < t2 / P" using assms by (simp add: divide_strict_right_mono)
  then have "t1 / P * (pi * 2) < t2 / P * (pi * 2)"
    by (intro mult_strict_right_mono) simp_all
  then have M12: "M1 < M2" by (simp only: M1_def M2_def mult.assoc)
  have "t2 / P < 1" using assms by simp
  then have "t2 / P * (pi * 2) < 1 * (pi * 2)"
    by (intro mult_strict_right_mono) simp_all
  then have M2: "M2 < 2 * pi" by (simp only: M2_def mult.assoc mult_1 mult.commute [of pi 2])
  have E12: "E1 < E2"
    unfolding E1_def E2_def using M12 by (intro kepler_loop_strict_mono assms) simp_all
  have E1: "0 \<le> E1"
    unfolding E1_def using M1 M12 M2 by (intro kepler_loop_range assms) simp_all
  have E2: "E2 < 2 * pi"
    unfolding E2_def using M1 M12 M2 by (intro kepler_loop_range assms) simp_all
  have "atan2 (sqrt (1 + e) * sin (E1 / 2)) (sqrt (1 - e) * cos (E1 / 2)) <
        atan2 (sqrt (1 + e) * sin (E2 / 2)) (sqrt (1 - e) * cos (E2 / 2))"
    using assms(1) e1 E1 E12 E2 by (intro atan2_ellipse_mono) simp_all
  then show ?thesis
    unfolding trueAnomaly_Some [OF P assms(1) e1] E1_def E2_def M1_def M2_def by simp
qed

theorem C8_true_anomaly_increasing_witness:
  "(0::real) \<le> 1 / 5 \<and> (1 / 5 :: real) < 1 / 2 \<and> (0::real) < 12 \<and> (0::real) \<le> 3 \<and>
   (3::real) < 4 \<and> (4::real) < 12 \<and>
   (\<exists>nu1 nu2. trueAnomaly 3 (1 / 5) 12 = Some nu1 \<and> trueAnomaly 4 (1 / 5) 12 = Some nu2 \<and>
      nu1 < nu2)"
  using C8_true_anomaly_increasing [of "1 / 5" 12 3 4] by simp

subsection \<open>C9\<close>

text \<open>
  C9. For valid elements (\<open>a > 0\<close>, \<open>e\<close> in \<open>[0, 1)\<close>, \<open>P > 0\<close>) the true anomaly \<open>\<nu>\<close> at
  time \<open>t\<close> is a finite number that does not depend on the orientation, and under every
  inclination, longitude of the ascending node and argument of periapsis the position
  has Euclidean norm \<open>a(1 - e\<^sup>2) / (1 + e\<sqdot>cos \<nu>)\<close>.
\<close>

theorem C9_norm_is_radius:
  assumes "0 < a" "0 \<le> e" "e < 1" "0 < P"
  shows "\<exists>nu. trueAnomaly t e P = Some nu \<and>
    (\<forall>i Om om. \<exists>v. calculateOrbitalPosition t a e P i Om om = Some v \<and>
       Vector3_length v = a * (1 - e\<^sup>2) / (1 + e * cos nu))"
proof -
  have P: "P \<noteq> 0" using assms by simp
  obtain nu where nu: "trueAnomaly t e P = Some nu"
    using trueAnomaly_Some [OF P assms(2,3)] by blast
  have pos: "0 < 1 + e * cos nu"
    by (rule denominator_pos [OF assms(2,3)])
  have "0 \<le> 1 - e * e"
    using assms(2,3) by (simp add: mult_le_one less_imp_le)
  then have nonneg: "0 \<le> a * (1 - e * e) / (1 + e * cos nu)"
    using assms(1) pos by simp
  have "\<exists>v. calculateOrbitalPosition t a e P i Om om = Some v \<and>
       Vector3_length v = a * (1 - e\<^sup>2) / (1 + e * cos nu)" for i Om om
  proof -
    obtain v where v: "calculateOrbitalPosition t a e P i Om om = Some v"
      "Vector3_length v = \<bar>a * (1 - e * e) / (1 + e * cos nu)\<bar>"
      using calculateOrbitalPosition_length [OF nu, of a i Om om] pos by auto
    have "Vector3_length v = a * (1 - e\<^sup>2) / (1 + e * cos nu)"
      using v(2) nonneg by (simp only: abs_of_nonneg power2_eq_square)
    with v(1) show ?thesis by blast
  qed
  with nu show ?thesis by blast
qed

theorem C9_norm_is_radius_witness:
  "(0::real) < 8 \<and> (0::real) \<le> 1 / 5 \<and> (1 / 5 :: real) < 1 \<and> (0::real) < 12 \<and>
   (\<exists>nu. trueAnomaly 3 (1 / 5) 12 = Some nu \<and>
    (\<forall>i Om om. \<exists>v. calculateOrbitalPosition 3 8 (1 / 5) 12 i Om om = Some v \<and>
       Vector3_length v = 8 * (1 - (1 / 5)\<^sup>2) / (1 + 1 / 5 * cos nu)))"
  using C9_norm_is_radius [of 8 "1 / 5" 12 3] by simp

subsection \<open>C10\<close>

text \<open>
  C10 (as amended). For a positive period and a time \<open>t \<ge> 0\<close>: the trail consists of the
  segments of the candidate indices \<open>0, \<dots>, N - 1\<close>; each of their sample times
  \<open>t - i\<sqdot>angleStep\<sqdot>P/2\<pi>\<close> lies in \<open>[0, t]\<close>, and every other candidate time is negative and
  was skipped. For \<open>t\<close> below \<open>59\<sqdot>P/360\<close>, the look-back of the oldest candidate, the trail
  has fewer than 60 points (from there on it has all 60); at \<open>t = 0\<close> it has one point;
  with fewer than 2 points nothing is rendered; and the oldest segment of a truncated trail
  has an opacity above \<open>1/60\<close>, the opacity of the oldest segment of every full trail.
  The same holds of the lines drawn, whose opacity is the mean of their two ends: the
  oldest line of a truncated trail has an opacity above \<open>1/40\<close>, that of the oldest line
  of every full trail.
\<close>

theorem C10_trail_window:
  assumes "0 < orbitalPeriod p" "0 \<le> t"
  shows "trail_loop p t = map (trail_segment p t) [0..<length (trail_loop p t)] \<and>
    (\<forall>i<length (trail_loop p t). 0 \<le> trailTime p t i \<and> trailTime p t i \<le> t) \<and>
    (\<forall>i<60. length (trail_loop p t) \<le> i \<longrightarrow> trailTime p t i < 0) \<and>
    (t < 59 * orbitalPeriod p / 360 \<longrightarrow> length (trailSegments True p t) < 60) \<and>
    (59 * orbitalPeriod p / 360 \<le> t \<longrightarrow> length (trailSegments True p t) = 60) \<and>
    (t = 0 \<longrightarrow> length (trailSegments True p t) = 1) \<and>
    (length (trailSegments True p t) < 2 \<longrightarrow> Trail True p t = None) \<and>
    (length (trailSegments True p t) < 60 \<longrightarrow>
       1 / 60 < opacity (hd (trailSegments True p t))) \<and>
    (\<forall>t'. 59 * orbitalPeriod p / 360 \<le> t' \<longrightarrow>
       opacity (hd (trailSegments True p t')) = 1 / 60) \<and>
    (2 \<le> length (trailSegments True p t) \<and> length (trailSegments True p t) < 60 \<longrightarrow>
       (\<exists>ls. Trail True p t = Some ls \<and> 1 / 40 < line_opacity (hd ls))) \<and>
    (\<forall>t'. 59 * orbitalPeriod p / 360 \<le> t' \<longrightarrow>
       (\<exists>ls. Trail True p t' = Some ls \<and> line_opacity (hd ls) = 1 / 40))"
proof -
  have len: "length (trailSegments True p s) = length (trail_loop p s)" for s
    by (simp add: trailSegments_def)
  have a: "trail_loop p t = map (trail_segment p t) [0..<length (trail_loop p t)]"
    by (rule trail_loop_prefix(1) [OF assms(1)])
  have b: "\<forall>i<length (trail_loop p t). 0 \<le> trailTime p t i \<and> trailTime p t i \<le> t"
    using trail_sample_times [OF assms(1)] by blast
  have c: "\<forall>i<60. length (trail_loop p t) \<le> i \<longrightarrow> trailTime p t i < 0"
    using trail_skipped [OF assms(1)] by blast
  have d: "t < 59 * orbitalPeriod p / 360 \<longrightarrow> length (trailSegments True p t) < 60"
    using trail_length_truncated [OF assms(1), of t] by (simp add: len)
  have e: "59 * orbitalPeriod p / 360 \<le> t \<longrightarrow> length (trailSegments True p t) = 60"
    using trail_length_full [OF assms(1), of t] by (simp add: len)
  have f: "t = 0 \<longrightarrow> length (trailSegments True p t) = 1"
    using trail_length_zero [OF assms(1)] by (simp add: len)
  have g: "length (trailSegments True p t) < 2 \<longrightarrow> Trail True p t = None"
    using Trail_null [of p t] by blast
  have h: "length (trailSegments True p t) < 60 \<longrightarrow>
       1 / 60 < opacity (hd (trailSegments True p t))"
  proof
    assume "length (trailSegments True p t) < 60"
    then have "real (length (trail_loop p t)) < 60"
      by (simp add: len)
    then show "1 / 60 < opacity (hd (trailSegments True p t))"
      unfolding trail_oldest_opacity [OF assms] by simp
  qed
  have i: "\<forall>t'. 59 * orbitalPeriod p / 360 \<le> t' \<longrightarrow>
       opacity (hd (trailSegments True p t')) = 1 / 60"
  proof (intro allI impI)
    fix t' assume t': "59 * orbitalPeriod p / 360 \<le> t'"
    have "0 \<le> 59 * orbitalPeriod p / 360" using assms(1) by simp
    then have "0 \<le> t'" using t' by simp
    then show "opacity (hd (trailSegments True p t')) = 1 / 60"
      unfolding trail_oldest_opacity [OF assms(1) \<open>0 \<le> t'\<close>]
        trail_length_full [OF assms(1) t'] by simp
  qed
  have j: "2 \<le> length (trailSegments True p t) \<and> length (trailSegments True p t) < 60 \<longrightarrow>
       (\<exists>ls. Trail True p t = Some ls \<and> 1 / 40 < line_opacity (hd ls))"
  proof
    assume "2 \<le> length (trailSegments True p t) \<and> length (trailSegments True p t) < 60"
    then have N2: "2 \<le> length (trail_loop p t)"
      and N60: "real (length (trail_loop p t)) < 60"
      by (simp_all add: len)
    obtain ls where ls: "Trail True p t = Some ls"
      "line_opacity (hd ls) = 1 - (2 * real (length (trail_loop p t)) - 3) / 120"
      using Trail_oldest_line [OF assms(1) N2] by blast
    have "1 / 40 < line_opacity (hd ls)"
      unfolding ls(2) using N60 by simp
    with ls(1) show "\<exists>ls. Trail True p t = Some ls \<and> 1 / 40 < line_opacity (hd ls)"
      by blast
  qed
  have k: "\<forall>t'. 59 * orbitalPeriod p / 360 \<le> t' \<longrightarrow>
       (\<exists>ls. Trail True p t' = Some ls \<and> line_opacity (hd ls) = 1 / 40)"
  proof (intro allI impI)
    fix t' assume t': "59 * orbitalPeriod p / 360 \<le> t'"
    have full: "length (trail_loop p t') = 60"
      by (rule trail_length_full [OF assms(1) t'])
    then have "2 \<le> length (trail_loop p t')" by simp
    then obtain ls where ls: "Trail True p t' = Some ls"
      "line_opacity (hd ls) = 1 - (2 * real (length (trail_loop p t')) - 3) / 120"
      using Trail_oldest_line [OF assms(1)] by blast
    have "line_opacity (hd ls) = 1 / 40"
      unfolding ls(2) full by simp
    with ls(1) show "\<exists>ls. Trail True p t' = Some ls \<and> line_opacity (hd ls) = 1 / 40"
      by blast
  qed
  show ?thesis
    by (intro conjI) (rule a b c d e f g h i j k)+
qed

theorem C10_trail_window_witness:
  "0 < orbitalPeriod mercury \<and> (0::real) \<le> 1 \<and> (1::real) < 59 * orbitalPeriod mercury / 360 \<and>
   length (trailSegments True mercury 1) < 60 \<and>
   1 / 60 < opacity (hd (trailSegments True mercury 1)) \<and>
   trail_loop mercury 1 = map (trail_segment mercury 1) [0..<length (trail_loop mercury 1)]"
proof -
  have h: "0 < orbitalPeriod mercury" "(0::real) \<le> 1"
    by (simp_all add: mercury_def)
  have w: "(1::real) < 59 * orbitalPeriod mercury / 360"
    by (simp add: mercury_def)
  show ?thesis
    using h w C10_trail_window [OF h] by blast
qed

text \<open>
  C10 as stated fails at the threshold: for Mercury the look-back window of 60 degrees
  lasts \<open>2\<close> time units, and at \<open>t = 1.98\<close>, inside that window, the trail already has
  all 60 points, since the oldest candidate looks back 59 degrees only.
\<close>

theorem C10_counterexample:
  "(0::real) \<le> 99 / 50 \<and> 99 / 50 < fullLookback mercury \<and>
   length (trailSegments True mercury (99 / 50)) = 60"
proof -
  have P: "0 < orbitalPeriod mercury" by (simp add: mercury_def)
  have "length (trail_loop mercury (99 / 50)) = 60"
    by (rule trail_length_full [OF P]) (simp add: mercury_def)
  then show ?thesis
    by (simp add: trailSegments_def fullLookback_eq mercury_def)
qed

end
